theory Spec2Isabelle
  imports Main
begin

section \<open>Azure Digital Twins output binding and CloudEvents envelope helpers\<close>

text \<open>
  A shallow embedding of \<^verbatim>\<open>bindings/azure/digitaltwins/digitaltwins.go\<close> (package
  \<^verbatim>\<open>digitaltwins\<close>) and of the envelope helpers of package \<^verbatim>\<open>pubsub\<close> that follow it
  in the same source file. Go strings and byte slices are byte strings (\<open>string\<close>, \<open>bytes\<close>), Go maps are partial
  functions, a Go \<^verbatim>\<open>error\<close> is its message, and \<^verbatim>\<open>nil\<close> results are \<open>None\<close>. Calls to
  the logger only write log lines and are left out.
\<close>

subsection \<open>Configuration of the binding\<close>

type_synonym error = string

type_synonym bytes = string

record AzureDigitalTwins =
  clientID :: string
  clientSecret :: string
  tenantID :: string
  adtInstanceURL :: string

record azureDigitalTwinsMetadata =
  meta_clientID :: string
  meta_clientSecret :: string
  meta_tenantID :: string
  meta_adtInstanceURL :: string

record bindings_Metadata =
  Properties :: "string \<rightharpoonup> string"

text \<open>
  The Go idiom \<^verbatim>\<open>if val, ok := m[k]; ok && val != "" { ... }\<close>: the value under \<open>k\<close> when
  the key is present with a non-empty value. Reading a \<^verbatim>\<open>nil\<close> map behaves like reading
  an empty one.
\<close>

definition lookup_nonempty :: "(string \<rightharpoonup> string) \<Rightarrow> string \<Rightarrow> string option" where
  "lookup_nonempty m k =
     (case m k of None \<Rightarrow> None | Some val \<Rightarrow> if val \<noteq> [] then Some val else None)"

definition getAzureDigitalTwinsMetadata ::
  "bindings_Metadata \<Rightarrow> error + azureDigitalTwinsMetadata" where
  "getAzureDigitalTwinsMetadata metadata =
     (let meta = \<lparr>meta_clientID = [], meta_clientSecret = [], meta_tenantID = [],
                  meta_adtInstanceURL = []\<rparr> in
      (case lookup_nonempty (Properties metadata) ''clientId'' of
         None \<Rightarrow> Inl ''azureDigitalTwins error: missing clientId''
       | Some val \<Rightarrow>
      (let meta = meta\<lparr>meta_clientID := val\<rparr> in
      (case lookup_nonempty (Properties metadata) ''clientSecret'' of
         None \<Rightarrow> Inl ''azureDigitalTwins error: missing clientSecret''
       | Some val \<Rightarrow>
      (let meta = meta\<lparr>meta_clientSecret := val\<rparr> in
      (case lookup_nonempty (Properties metadata) ''tenantId'' of
         None \<Rightarrow> Inl ''azureDigitalTwins error: missing tenantId''
       | Some val \<Rightarrow>
      (let meta = meta\<lparr>meta_tenantID := val\<rparr> in
      (case lookup_nonempty (Properties metadata) ''adtInstanceUrl'' of
         None \<Rightarrow> Inl ''azureDigitalTwins error: missing adtInstanceUrl''
       | Some val \<Rightarrow>
      (let meta = meta\<lparr>meta_adtInstanceURL := val\<rparr> in
       Inr meta)))))))))"

text \<open>
  \<^verbatim>\<open>Init\<close> mutates the receiver; the model returns the receiver after the call together
  with the returned error.
\<close>

definition Init :: "AzureDigitalTwins \<Rightarrow> bindings_Metadata \<Rightarrow> AzureDigitalTwins \<times> error option" where
  "Init d metadata =
     (case getAzureDigitalTwinsMetadata metadata of
        Inl err \<Rightarrow> (d, Some err)
      | Inr meta \<Rightarrow>
          (d\<lparr>clientID := meta_clientID meta,
             clientSecret := meta_clientSecret meta,
             tenantID := meta_tenantID meta,
             adtInstanceURL := meta_adtInstanceURL meta\<rparr>, None))"

definition required_keys :: "string list" where
  "required_keys = [''clientId'', ''clientSecret'', ''tenantId'', ''adtInstanceUrl'']"

subsection \<open>Go values used by the envelope helpers\<close>

text \<open>
  An \<^verbatim>\<open>interface{}\<close> value is either a Go string or a value of some other dynamic
  type, kept abstract as \<open>'a\<close>.
\<close>

datatype 'a iface = VString string | VOther 'a

text \<open>
  A Go map value is either \<^verbatim>\<open>nil\<close> or an allocated map. Reading a \<^verbatim>\<open>nil\<close> map finds
  no key; assigning to an entry of a \<^verbatim>\<open>nil\<close> map panics.
\<close>

datatype 'v gomap = NilMap | MakeMap "string \<rightharpoonup> 'v"

type_synonym panic = string

fun index :: "'v gomap \<Rightarrow> string \<Rightarrow> 'v option" where
  "index NilMap k = None"
| "index (MakeMap m) k = m k"

fun assign :: "'v gomap \<Rightarrow> string \<Rightarrow> 'v \<Rightarrow> panic + 'v gomap" where
  "assign NilMap k v = Inl ''assignment to entry in nil map''"
| "assign (MakeMap m) k v = Inr (MakeMap (m(k \<mapsto> v)))"

text \<open>
  \<^verbatim>\<open>fmt.Sprintf("%s", e)\<close>: a string is printed as it is; how any other dynamic value
  prints is a parameter.
\<close>

fun Sprintf_s :: "('a \<Rightarrow> string) \<Rightarrow> 'a iface \<Rightarrow> string" where
  "Sprintf_s fmt_other (VString s) = s"
| "Sprintf_s fmt_other (VOther x) = fmt_other x"

text \<open>
  A \<^verbatim>\<open>time.Time\<close> is an instant (nanoseconds since the epoch) shown in a zone (offset
  in seconds). \<^verbatim>\<open>UTC\<close> changes the zone only, \<^verbatim>\<open>Before\<close> compares instants, and
  \<^verbatim>\<open>Add\<close> moves the instant by a \<^verbatim>\<open>time.Duration\<close> (nanoseconds). A parsed time
  has no monotonic clock reading and \<^verbatim>\<open>UTC\<close> drops the one of \<^verbatim>\<open>time.Now()\<close>, so the
  comparison in \<^verbatim>\<open>HasExpired\<close> is between wall-clock instants. Instants are unbounded
  integers: as the source notes, adding the largest duration to the present time is
  far from the largest representable time.
\<close>

record Time =
  instant :: int
  zone_offset :: int

definition UTC :: "Time \<Rightarrow> Time" where
  "UTC t = t\<lparr>zone_offset := 0\<rparr>"

definition Before :: "Time \<Rightarrow> Time \<Rightarrow> bool" where
  "Before t u = (instant t < instant u)"

definition Add :: "Time \<Rightarrow> int \<Rightarrow> Time" where
  "Add t d = t\<lparr>instant := instant t + d\<rparr>"

subsection \<open>Package pubsub: constants\<close>

definition DefaultCloudEventType :: string where
  "DefaultCloudEventType = ''com.dapr.event.sent''"

definition CloudEventsSpecVersion :: string where
  "CloudEventsSpecVersion = ''1.0''"

definition DefaultCloudEventSource :: string where
  "DefaultCloudEventSource = ''Dapr''"

definition DefaultCloudEventDataContentType :: string where
  "DefaultCloudEventDataContentType = ''text/plain''"

definition TraceIDField :: string where
  "TraceIDField = ''traceid''"

definition expirationField :: string where
  "expirationField = ''expiration''"

subsection \<open>NewCloudEventsEnvelope\<close>

text \<open>
  Two library calls are parameters: \<open>uuid_New\<close> is the string that
  \<^verbatim>\<open>uuid.New().String()\<close> yields at this call, and \<open>jsoniter_Unmarshal\<close> is the error
  result of \<^verbatim>\<open>jsoniter.Unmarshal(data, &j)\<close> for an \<^verbatim>\<open>interface{}\<close> target.
\<close>

definition NewCloudEventsEnvelope ::
  "string \<Rightarrow> (bytes \<Rightarrow> error option) \<Rightarrow>
   string \<Rightarrow> string \<Rightarrow> string \<Rightarrow> string \<Rightarrow> string \<Rightarrow> string \<Rightarrow> string \<Rightarrow> bytes \<Rightarrow> string \<Rightarrow>
   'a iface gomap" where
  "NewCloudEventsEnvelope uuid_New jsoniter_Unmarshal
       id' source eventType subject topic pubsubName dataContentType data' traceID =
     (let id' = (if id' = [] then uuid_New else id');
          source = (if source = [] then DefaultCloudEventSource else source);
          eventType = (if eventType = [] then DefaultCloudEventType else eventType);
          dataContentType =
            (if dataContentType = [] then DefaultCloudEventDataContentType
             else dataContentType);
          err = jsoniter_Unmarshal data';
          dataContentType = (if err = None then ''application/json'' else dataContentType)
      in MakeMap [
           ''id'' \<mapsto> VString id',
           ''specversion'' \<mapsto> VString CloudEventsSpecVersion,
           ''datacontenttype'' \<mapsto> VString dataContentType,
           ''source'' \<mapsto> VString source,
           ''type'' \<mapsto> VString eventType,
           ''subject'' \<mapsto> VString subject,
           ''topic'' \<mapsto> VString topic,
           ''pubsubname'' \<mapsto> VString pubsubName,
           ''data'' \<mapsto> VString data',
           ''traceid'' \<mapsto> VString traceID])"

subsection \<open>FromCloudEvent\<close>

text \<open>
  \<open>jsoniter_Unmarshal\<close> is \<^verbatim>\<open>jsoniter.Unmarshal(cloudEvent, &m)\<close> for a
  \<^verbatim>\<open>map[string]interface{}\<close> target that starts as \<^verbatim>\<open>nil\<close>: it yields the map
  \<open>m\<close> after the call and the returned error.
\<close>

definition setTraceContext :: "'a iface gomap \<Rightarrow> string \<Rightarrow> panic + 'a iface gomap" where
  "setTraceContext cloudEvent traceID = assign cloudEvent TraceIDField (VString traceID)"

definition FromCloudEvent ::
  "(bytes \<Rightarrow> 'a iface gomap \<times> error option) \<Rightarrow> bytes \<Rightarrow> string \<Rightarrow>
   panic + ('a iface gomap \<times> error option)" where
  "FromCloudEvent jsoniter_Unmarshal cloudEvent traceID =
     (let (m, err) = jsoniter_Unmarshal cloudEvent in
      if err \<noteq> None then Inr (m, err)
      else (case setTraceContext m traceID of
              Inl p \<Rightarrow> Inl p
            | Inr m' \<Rightarrow> Inr (m', None)))"

subsection \<open>HasExpired\<close>

text \<open>
  \<open>time_Parse\<close> is \<^verbatim>\<open>time.Parse(time.RFC3339, _)\<close> and \<open>time_Now\<close> is the value of
  \<^verbatim>\<open>time.Now()\<close> at the call.
\<close>

definition HasExpired ::
  "('a \<Rightarrow> string) \<Rightarrow> (string \<Rightarrow> error + Time) \<Rightarrow> Time \<Rightarrow> 'a iface gomap \<Rightarrow> bool" where
  "HasExpired fmt_other time_Parse time_Now cloudEvent =
     (case index cloudEvent expirationField of
        None \<Rightarrow> False
      | Some e \<Rightarrow>
          if e \<noteq> VString [] then
            (case time_Parse (Sprintf_s fmt_other e) of
               Inl err \<Rightarrow> False
             | Inr expiration \<Rightarrow> Before (UTC expiration) (UTC time_Now))
          else False)"

subsection \<open>ApplyMetadata\<close>

type_synonym Feature = string

text \<open>
  Modelled from the spec: \<^verbatim>\<open>Feature.IsPresent\<close> is declared in another file of package
  \<^verbatim>\<open>pubsub\<close>; the spec describes it as a feature-set membership test.
\<close>

definition IsPresent :: "Feature \<Rightarrow> Feature list \<Rightarrow> bool" where
  "IsPresent f features = (f \<in> set features)"

text \<open>
  \<open>FeatureMessageTTL\<close> (a constant of package \<^verbatim>\<open>pubsub\<close>) and \<open>TryGetTTL\<close> (package
  \<^verbatim>\<open>metadata\<close>, returning the duration, whether a TTL was found, and an error) are
  declared outside this file and are parameters, as are \<open>time_Now\<close> and \<open>Format\<close>, which
  is \<^verbatim>\<open>Time.Format(time.RFC3339)\<close>. The function mutates the map it is given; the model
  returns the map after the call, or the panic of writing into a \<^verbatim>\<open>nil\<close> map.
\<close>

definition ApplyMetadata ::
  "Feature \<Rightarrow> ((string \<rightharpoonup> string) \<Rightarrow> int \<times> bool \<times> error option) \<Rightarrow> Time \<Rightarrow> (Time \<Rightarrow> string) \<Rightarrow>
   'a iface gomap \<Rightarrow> Feature list \<Rightarrow> (string \<rightharpoonup> string) \<Rightarrow> panic + 'a iface gomap" where
  "ApplyMetadata FeatureMessageTTL TryGetTTL time_Now Format
       cloudEvent componentFeatures metadata =
     (let (ttl, hasTTL, _) = TryGetTTL metadata in
      if hasTTL \<and> \<not> IsPresent FeatureMessageTTL componentFeatures then
        (let now = UTC time_Now;
             expiration = Add now ttl
         in assign cloudEvent expirationField (VString (Format expiration)))
      else Inr cloudEvent)"


subsection \<open>The path pattern of the binding\<close>

text \<open>
  \<^verbatim>\<open>patchMultipleTwin\<close> compiles the pattern \<^verbatim>\<open>^/(.+?)\/(.+)$\<close> and calls
  \<^verbatim>\<open>FindStringSubmatch\<close>. Go's \<^verbatim>\<open>regexp\<close> returns the leftmost match and, among
  the matches starting there, the one a backtracking search finds first. The pattern
  is kept as its program: assertions, literals, the two repetitions of \<^verbatim>\<open>.\<close> (which
  matches every character but a newline) and the capture boundaries, where slots
  \<open>2g\<close> and \<open>2g + 1\<close> delimit group \<open>g\<close> and group 0 is the whole match.
  \<open>DotPlus True\<close> is the greedy \<^verbatim>\<open>.+\<close> and \<open>DotPlus False\<close> the lazy \<^verbatim>\<open>.+?\<close>.
  No flag is set, so \<^verbatim>\<open>^\<close> and \<^verbatim>\<open>$\<close> hold only at the beginning and at the end of
  the text. Go matches UTF-8 code points where the model matches bytes; neither a
  slash nor a newline occurs inside a longer code point, so both find the same
  captures.

  \<open>run\<close> executes a program at a position of the text, with the rest of the text
  from there, and yields the capture slots of the first successful path: a repetition
  tries its possible lengths in order of preference (shortest first when lazy,
  longest first when greedy) and takes the first for which the rest of the program
  succeeds. \<open>FindStringSubmatch\<close> tries the start positions from the left and
  returns the whole match followed by the groups, or the empty list (\<^verbatim>\<open>nil\<close>) when
  there is no match.
\<close>

datatype inst =
    BeginText
  | EndText
  | Lit char
  | DotPlus bool
  | Save nat

definition newline :: char where
  "newline = CHR 0x0A"

fun first_some :: "'a option list \<Rightarrow> 'a option" where
  "first_some [] = None"
| "first_some (None # xs) = first_some xs"
| "first_some (Some y # xs) = Some y"

fun run :: "inst list \<Rightarrow> nat \<Rightarrow> string \<Rightarrow> (nat \<Rightarrow> nat) \<Rightarrow> (nat \<Rightarrow> nat) option" where
  "run [] pos rest cap = Some cap"
| "run (BeginText # prog) pos rest cap = (if pos = 0 then run prog pos rest cap else None)"
| "run (EndText # prog) pos rest cap = (if rest = [] then run prog pos rest cap else None)"
| "run (Lit c # prog) pos rest cap =
     (case rest of
        [] \<Rightarrow> None
      | x # rest' \<Rightarrow> if x = c then run prog (Suc pos) rest' cap else None)"
| "run (Save k # prog) pos rest cap = run prog pos rest (cap(k := pos))"
| "run (DotPlus greedy # prog) pos rest cap =
     (let n = length (takeWhile (\<lambda>x. x \<noteq> newline) rest);
          lens = (if greedy then rev [1..<Suc n] else [1..<Suc n])
      in first_some (map (\<lambda>k. run prog (pos + k) (drop k rest) cap) lens))"

definition substr :: "string \<Rightarrow> nat \<Rightarrow> nat \<Rightarrow> string" where
  "substr s b e = take (e - b) (drop b s)"

definition NumSubexp :: "inst list \<Rightarrow> nat" where
  "NumSubexp prog = length (filter (\<lambda>i. case i of Save k \<Rightarrow> True | _ \<Rightarrow> False) prog) div 2 - 1"

definition FindStringSubmatch :: "inst list \<Rightarrow> string \<Rightarrow> string list" where
  "FindStringSubmatch prog s =
     (case first_some (map (\<lambda>start. run prog start (drop start s) (\<lambda>k. 0))
                           [0..<Suc (length s)]) of
        None \<Rightarrow> []
      | Some cap \<Rightarrow>
          map (\<lambda>g. substr s (cap (2 * g)) (cap (2 * g + 1))) [0..<Suc (NumSubexp prog)])"

definition twin_path_regexp :: "inst list" where
  "twin_path_regexp =
     [Save 0, BeginText, Lit CHR ''/'', Save 2, DotPlus False, Save 3, Lit CHR ''/'',
      Save 4, DotPlus True, Save 5, EndText, Save 1]"

text \<open>
  What must follow the first capture: the separating slash and a non-empty second
  capture without a newline.
\<close>

definition rest_ok :: "string \<Rightarrow> bool" where
  "rest_ok s =
     (case s of [] \<Rightarrow> False | c # s2 \<Rightarrow> c = CHR ''/'' \<and> s2 \<noteq> [] \<and> newline \<notin> set s2)"

subsection \<open>Patch operations, requests and the library environment\<close>

text \<open>
  \<^verbatim>\<open>Value\<close> has type \<^verbatim>\<open>interface{}\<close> and is kept abstract as \<open>'v\<close>. \<^verbatim>\<open>TwinID\<close> is
  not part of the JSON form (tag \<^verbatim>\<open>json:"-"\<close>).
\<close>

record 'v jsonPatchOperation =
  Op :: string
  Path :: string
  Value :: 'v
  TwinID :: string

record bindings_InvokeRequest =
  Data :: bytes
  Metadata :: "string \<rightharpoonup> string"

record bindings_InvokeResponse =
  response_Data :: string
  response_Metadata :: "string \<rightharpoonup> string"

text \<open>
  One call of the generated REST client's \<^verbatim>\<open>Update\<close>: the binding whose instance URL
  and credentials the client was built from, and the arguments after the context.
\<close>

record 'v update_call =
  client :: AzureDigitalTwins
  twin_id :: string
  patchDocument :: "'v jsonPatchOperation list"
  ifMatch :: string
  traceparent :: string
  tracestate :: string

text \<open>
  The library calls are parameters: \<^verbatim>\<open>json.Unmarshal\<close> into a
  \<^verbatim>\<open>[]jsonPatchOperation\<close>, \<^verbatim>\<open>json.Marshal\<close> of a patch document, and the error
  result of the client's \<^verbatim>\<open>Update\<close>. The binding discards what \<^verbatim>\<open>Update\<close> returns;
  the model records each call with its result, in order.
\<close>

record 'v env =
  json_Unmarshal :: "bytes \<Rightarrow> error + 'v jsonPatchOperation list"
  json_Marshal :: "'v jsonPatchOperation list \<Rightarrow> error + bytes"
  client_Update :: "'v update_call \<Rightarrow> error option"

type_synonym 'v trace = "('v update_call \<times> error option) list"

type_synonym 'v invoke_result =
  "(bindings_InvokeResponse option \<times> error option) \<times> 'v trace"

definition new_call ::
  "AzureDigitalTwins \<Rightarrow> string \<Rightarrow> 'v jsonPatchOperation list \<Rightarrow> 'v update_call" where
  "new_call d twinID doc =
     \<lparr>client = d, twin_id = twinID, patchDocument = doc, ifMatch = ''*'',
      traceparent = [], tracestate = []\<rparr>"

definition Update ::
  "'v env \<Rightarrow> AzureDigitalTwins \<Rightarrow> string \<Rightarrow> 'v jsonPatchOperation list \<Rightarrow> 'v trace \<Rightarrow> 'v trace" where
  "Update e d twinID doc tr =
     (let call = new_call d twinID doc
      in tr @ [(call, client_Update e call)])"

text \<open>The twin id and the patch document of each recorded call, in order.\<close>

definition submitted :: "'v trace \<Rightarrow> (string \<times> 'v jsonPatchOperation list) list" where
  "submitted tr = map (\<lambda>cr. (twin_id (fst cr), patchDocument (fst cr))) tr"

subsection \<open>patchSingleTwin\<close>

definition patchSingleTwin ::
  "'v env \<Rightarrow> AzureDigitalTwins \<Rightarrow> string \<Rightarrow> bindings_InvokeRequest \<Rightarrow> 'v invoke_result" where
  "patchSingleTwin e d twinID req =
     (case json_Unmarshal e (Data req) of
        Inl err \<Rightarrow> ((None, None), [])
      | Inr operationDoc \<Rightarrow>
          (let s = operationDoc
           in ((None, None), Update e d twinID s [])))"

subsection \<open>patchMultipleTwin\<close>

text \<open>
  The first loop: \<open>set_twin\<close> is the pair of assignments to \<^verbatim>\<open>operationDoc[i]\<close>, and
  \<open>None\<close> is the early \<^verbatim>\<open>return nil, nil\<close> on a path that does not match. The
  pattern is a constant, so \<^verbatim>\<open>regexp.Compile\<close> succeeds and yields \<open>twin_path_regexp\<close>.
\<close>

definition set_twin :: "string list \<Rightarrow> 'v jsonPatchOperation \<Rightarrow> 'v jsonPatchOperation" where
  "set_twin matches v = v\<lparr>TwinID := matches ! 1, Path := ''/'' @ matches ! 2\<rparr>"

fun first_pass :: "inst list \<Rightarrow> 'v jsonPatchOperation list \<Rightarrow> 'v jsonPatchOperation list option" where
  "first_pass r [] = Some []"
| "first_pass r (v # vs) =
     (let matches = FindStringSubmatch r (Path v) in
      if length matches < 3 \<or> length matches > 3 then None
      else (case first_pass r vs of
              None \<Rightarrow> None
            | Some vs' \<Rightarrow> Some (set_twin matches v # vs')))"

text \<open>
  The second loop: one single-operation document per element; a \<^verbatim>\<open>json.Marshal\<close>
  error returns early, otherwise \<^verbatim>\<open>Update\<close> is called and its result ignored.
\<close>

fun second_pass ::
  "'v env \<Rightarrow> AzureDigitalTwins \<Rightarrow> 'v jsonPatchOperation list \<Rightarrow> 'v trace \<Rightarrow> 'v invoke_result" where
  "second_pass e d [] tr = ((None, None), tr)"
| "second_pass e d (v # vs) tr =
     (let patchDoc = [v] in
      case json_Marshal e patchDoc of
        Inl err \<Rightarrow> ((None, None), tr)
      | Inr b \<Rightarrow> second_pass e d vs (Update e d (TwinID v) patchDoc tr))"

definition patchMultipleTwin ::
  "'v env \<Rightarrow> AzureDigitalTwins \<Rightarrow> bindings_InvokeRequest \<Rightarrow> 'v invoke_result" where
  "patchMultipleTwin e d req =
     (case json_Unmarshal e (Data req) of
        Inl err \<Rightarrow> ((None, None), [])
      | Inr operationDoc \<Rightarrow>
          (case first_pass twin_path_regexp operationDoc of
             None \<Rightarrow> ((None, None), [])
           | Some operationDoc' \<Rightarrow> second_pass e d operationDoc' []))"

subsection \<open>Invoke\<close>

definition Invoke ::
  "'v env \<Rightarrow> AzureDigitalTwins \<Rightarrow> bindings_InvokeRequest \<Rightarrow> 'v invoke_result" where
  "Invoke e d req =
     (case lookup_nonempty (Metadata req) ''twinID'' of
        Some val \<Rightarrow> patchSingleTwin e d val req
      | None \<Rightarrow> patchMultipleTwin e d req)"

subsection \<open>Per-twin grouping, as the specification words it\<close>

text \<open>
  The specification's overview describes the demultiplexer as splitting a batch into
  per-twin operation lists with one update call per twin. This definition follows
  those words, for comparison with \<open>patchMultipleTwin\<close>: one document per twin id, in
  order of first appearance, holding that twin's operations in input order.
\<close>

definition per_twin_documents ::
  "'v jsonPatchOperation list \<Rightarrow> (string \<times> 'v jsonPatchOperation list) list" where
  "per_twin_documents ops =
     map (\<lambda>t. (t, filter (\<lambda>v. TwinID v = t) ops)) (rev (remdups (rev (map TwinID ops))))"

subsection \<open>Sample library behaviour for evaluating the model\<close>

text \<open>
  \<open>sample_time_Parse\<close> agrees with \<^verbatim>\<open>time.Parse(time.RFC3339, _)\<close> on the inputs used
  below: midnight of 1 January 2000 UTC is 946684800 seconds after the epoch, and the
  other inputs are not timestamps.
\<close>

definition sample_time_Parse :: "string \<Rightarrow> error + Time" where
  "sample_time_Parse s =
     (if s = ''2000-01-01T00:00:00Z'' then Inr \<lparr>instant = 946684800000000000, zone_offset = 0\<rparr>
      else Inl ''parsing time: cannot parse'')"

definition sample_time_Now :: Time where
  "sample_time_Now = \<lparr>instant = 1609459200000000000, zone_offset = 3600\<rparr>"

text \<open>
  A decoder, encoder and REST client for the two batches used below: the decoder
  agrees with \<^verbatim>\<open>json.Unmarshal\<close> on them and rejects everything else, and every
  \<^verbatim>\<open>Update\<close> call fails.
\<close>

definition sample_batch :: string where
  \<open>sample_batch =
     ''[{"op":"replace","path":"/a/x","value":1},{"op":"replace","path":"/a/y","value":2}]''\<close>

definition sample_bad_batch :: string where
  \<open>sample_bad_batch =
     ''[{"op":"replace","path":"/a/x","value":1},{"op":"replace","path":"/y","value":2}]''\<close>

definition sample_json_Unmarshal :: "string \<Rightarrow> error + int jsonPatchOperation list" where
  "sample_json_Unmarshal data' =
     (if data' = sample_batch then
        Inr [\<lparr>Op = ''replace'', Path = ''/a/x'', Value = 1, TwinID = []\<rparr>,
             \<lparr>Op = ''replace'', Path = ''/a/y'', Value = 2, TwinID = []\<rparr>]
      else if data' = sample_bad_batch then
        Inr [\<lparr>Op = ''replace'', Path = ''/a/x'', Value = 1, TwinID = []\<rparr>,
             \<lparr>Op = ''replace'', Path = ''/y'', Value = 2, TwinID = []\<rparr>]
      else Inl ''invalid character'')"

definition sample_env :: "int env" where
  "sample_env =
     \<lparr>json_Unmarshal = sample_json_Unmarshal,
      json_Marshal = (\<lambda>doc. Inr ''[...]''),
      client_Update = (\<lambda>call. Some ''401 Unauthorized'')\<rparr>"

definition sample_binding :: AzureDigitalTwins where
  "sample_binding =
     \<lparr>clientID = ''app'', clientSecret = ''pw'', tenantID = ''org'',
      adtInstanceURL = ''https://adt''\<rparr>"

text \<open>
  \<open>sample_jsoniter_Unmarshal\<close> agrees with \<^verbatim>\<open>jsoniter.Unmarshal\<close> into a \<^verbatim>\<open>nil\<close>
  \<^verbatim>\<open>map[string]interface{}\<close> on the inputs used below: the JSON literal \<^verbatim>\<open>null\<close>
  leaves the map \<^verbatim>\<open>nil\<close> and returns no error, an object fills a new map, and an
  array is an error (the map left behind on an error plays no role below).
\<close>

definition sample_jsoniter_Unmarshal :: "string \<Rightarrow> unit iface gomap \<times> error option" where
  \<open>sample_jsoniter_Unmarshal cloudEvent =
     (if cloudEvent = ''null'' then (NilMap, None)
      else if cloudEvent = ''{"id":"7"}'' then (MakeMap [''id'' \<mapsto> VString ''7''], None)
      else (MakeMap Map.empty, Some ''ReadMapCB: expect { or n, but found [''))\<close>

section \<open>Theorems\<close>

subsection \<open>The path pattern\<close>

lemma first_some_map_find:
  "first_some (map f xs) = (case find (\<lambda>x. f x \<noteq> None) xs of None \<Rightarrow> None | Some x \<Rightarrow> f x)"
proof (induction xs)
  case Nil
  then show ?case by simp
next
  case (Cons a xs)
  then show ?case by (cases "f a") simp_all
qed

lemma first_some_all_None:
  "(\<And>x. x \<in> set xs \<Longrightarrow> f x = None) \<Longrightarrow> first_some (map f xs) = None"
  by (induction xs) simp_all

lemma find_SomeD: "find P xs = Some x \<Longrightarrow> P x \<and> x \<in> set xs"
  by (induction xs) (auto split: if_splits)

lemma takeWhile_full_iff: "length (takeWhile P s) = length s \<longleftrightarrow> (\<forall>x \<in> set s. P x)"
  by (induction s) auto

lemma run_greedy_tail:
  "run [DotPlus True, Save 5, EndText, Save 1] pos s cap =
     (if s \<noteq> [] \<and> newline \<notin> set s
      then Some (cap(5 := pos + length s, 1 := pos + length s)) else None)"
proof (cases "s \<noteq> [] \<and> newline \<notin> set s")
  case True
  then have n: "length (takeWhile (\<lambda>x. x \<noteq> newline) s) = length s"
    by (auto simp: takeWhile_full_iff)
  from True obtain m where m: "length s = Suc m" by (cases s) auto
  show ?thesis using True by (simp add: n m)
next
  case False
  let ?n = "length (takeWhile (\<lambda>x. x \<noteq> newline) s)"
  have "?n < length s \<or> s = []"
    using False takeWhile_full_iff[of "\<lambda>x. x \<noteq> newline" s] length_takeWhile_le[of "\<lambda>x. x \<noteq> newline" s]
    by (cases "?n = length s") auto
  then have "\<And>k. k \<in> set (rev [1..<Suc ?n]) \<Longrightarrow>
      run [Save 5, EndText, Save 1] (pos + k) (drop k s) cap = None"
    by auto
  then have "first_some (map (\<lambda>k. run [Save 5, EndText, Save 1] (pos + k) (drop k s) cap)
               (rev [1..<Suc ?n])) = None"
    by (rule first_some_all_None)
  then show ?thesis using False by (simp add: Let_def)
qed


lemma rest_ok_iff:
  "rest_ok s \<longleftrightarrow> (\<exists>s2. s = CHR ''/'' # s2 \<and> s2 \<noteq> [] \<and> newline \<notin> set s2)"
  by (cases s) (auto simp: rest_ok_def)

lemma run_after_twin:
  "run [Save 3, Lit CHR ''/'', Save 4, DotPlus True, Save 5, EndText, Save 1] pos s cap =
     (if rest_ok s
      then Some (cap(3 := pos, 4 := Suc pos, 5 := pos + length s, 1 := pos + length s))
      else None)"
proof (cases s)
  case Nil
  then show ?thesis by (simp add: rest_ok_iff)
next
  case (Cons x s2)
  show ?thesis
    unfolding Cons run.simps(5) run.simps(4) list.case run_greedy_tail
    by (auto simp: rest_ok_iff)
qed

lemma run_twin_path_regexp_start:
  "run twin_path_regexp start s (\<lambda>k. 0) =
     (if start = 0 then
        (case s of
           [] \<Rightarrow> None
         | x # s1 \<Rightarrow>
             if x = CHR ''/'' then
               (case find (\<lambda>k. rest_ok (drop k s1))
                       [1..<Suc (length (takeWhile (\<lambda>x. x \<noteq> newline) s1))] of
                  None \<Rightarrow> None
                | Some k \<Rightarrow>
                    Some ((\<lambda>k. 0)(0 := 0, 2 := 1, 3 := 1 + k, 4 := 2 + k,
                           5 := 1 + length s1, 1 := 1 + length s1)))
             else None)
      else None)"
proof -
  have tail: "\<And>pos s1 cap.
      run [DotPlus False, Save 3, Lit CHR ''/'', Save 4, DotPlus True, Save 5, EndText, Save 1]
          pos s1 cap =
      (case find (\<lambda>k. rest_ok (drop k s1))
              [1..<Suc (length (takeWhile (\<lambda>x. x \<noteq> newline) s1))] of
         None \<Rightarrow> None
       | Some k \<Rightarrow> Some (cap(3 := pos + k, 4 := Suc (pos + k), 5 := pos + length s1,
                              1 := pos + length s1)))"
  proof -
    fix pos s1 cap
    let ?n = "length (takeWhile (\<lambda>x. x \<noteq> newline) s1)"
    have le: "?n \<le> length s1" by (rule length_takeWhile_le)
    have P: "(\<lambda>k. run [Save 3, Lit CHR ''/'', Save 4, DotPlus True, Save 5, EndText, Save 1]
                 (pos + k) (drop k s1) cap \<noteq> None) = (\<lambda>k. rest_ok (drop k s1))"
      by (simp only: run_after_twin) simp
    have run_eq: "run [DotPlus False, Save 3, Lit CHR ''/'', Save 4, DotPlus True, Save 5,
                       EndText, Save 1] pos s1 cap =
        (case find (\<lambda>k. rest_ok (drop k s1)) [1..<Suc ?n] of
           None \<Rightarrow> None
         | Some k \<Rightarrow>
             run [Save 3, Lit CHR ''/'', Save 4, DotPlus True, Save 5, EndText, Save 1]
               (pos + k) (drop k s1) cap)"
      unfolding run.simps(6) Let_def if_False first_some_map_find P ..
    show "run [DotPlus False, Save 3, Lit CHR ''/'', Save 4, DotPlus True, Save 5, EndText, Save 1]
          pos s1 cap =
      (case find (\<lambda>k. rest_ok (drop k s1)) [1..<Suc ?n] of
         None \<Rightarrow> None
       | Some k \<Rightarrow> Some (cap(3 := pos + k, 4 := Suc (pos + k), 5 := pos + length s1,
                              1 := pos + length s1)))"
    proof (cases "find (\<lambda>k. rest_ok (drop k s1)) [1..<Suc ?n]")
      case None
      then show ?thesis unfolding run_eq by simp
    next
      case (Some k)
      from find_SomeD[OF Some] have ok: "rest_ok (drop k s1)" and k: "k \<le> length s1"
        using le by auto
      show ?thesis unfolding run_eq Some option.case run_after_twin
        using ok k by simp
    qed
  qed
  show ?thesis
    unfolding twin_path_regexp_def run.simps(5) run.simps(2) run.simps(4) tail
    by (auto split: list.splits option.splits simp: fun_upd_twist)
qed


lemma find_upt_SomeD:
  assumes "find P [a..<b] = Some k"
  shows "a \<le> k" and "k < b" and "P k" and "\<And>j. a \<le> j \<Longrightarrow> j < k \<Longrightarrow> \<not> P j"
proof -
  from assms obtain i where i: "i < length [a..<b]" "P ([a..<b] ! i)" "k = [a..<b] ! i"
      and least: "\<forall>j<i. \<not> P ([a..<b] ! j)"
    unfolding find_Some_iff by blast
  from i have ki: "k = a + i" and ib: "i < b - a" by simp_all
  show "a \<le> k" using ki by simp
  show "k < b" using ki ib by simp
  show "P k" using i by simp
  fix j assume j: "a \<le> j" "j < k"
  then have "j - a < i" using ki by simp
  with least have "\<not> P ([a..<b] ! (j - a))" by blast
  moreover have "[a..<b] ! (j - a) = j" using j ki ib by simp
  ultimately show "\<not> P j" by simp
qed

lemma take_takeWhile_holds:
  "k \<le> length (takeWhile P xs) \<Longrightarrow> x \<in> set (take k xs) \<Longrightarrow> P x"
proof (induction xs arbitrary: k)
  case Nil
  then show ?case by simp
next
  case (Cons a xs)
  show ?case
  proof (cases k)
    case 0
    with Cons.prems show ?thesis by simp
  next
    case (Suc k')
    with Cons.prems have a: "P a" and k': "k' \<le> length (takeWhile P xs)"
      by (auto split: if_splits)
    from Cons.prems Suc have "x = a \<or> x \<in> set (take k' xs)" by simp
    then show ?thesis using a Cons.IH[OF k'] by blast
  qed
qed

lemma first_match_at_start:
  "first_some (map (\<lambda>start. run twin_path_regexp start (drop start s) (\<lambda>k. 0))
                   [0..<Suc (length s)]) =
   run twin_path_regexp 0 s (\<lambda>k. 0)"
proof -
  have later: "first_some (map (\<lambda>start. run twin_path_regexp start (drop start s) (\<lambda>k. 0))
                   [Suc 0..<Suc (length s)]) = None"
  proof (rule first_some_all_None)
    fix x assume "x \<in> set [Suc 0..<Suc (length s)]"
    then have "x \<noteq> 0" unfolding set_upt atLeastLessThan_iff by simp
    then show "run twin_path_regexp x (drop x s) (\<lambda>k. 0) = None"
      by (simp only: run_twin_path_regexp_start if_False)
  qed
  have "[0..<Suc (length s)] = 0 # [Suc 0..<Suc (length s)]"
    by (rule upt_conv_Cons) simp
  then show ?thesis
    using later by (cases "run twin_path_regexp 0 s (\<lambda>k. 0)") simp_all
qed

lemma NumSubexp_twin_path_regexp: "NumSubexp twin_path_regexp = 2"
  by (simp add: NumSubexp_def twin_path_regexp_def)

lemma upt_3: "[0..<Suc 2] = [0, 1, 2]"
  by (simp add: upt_conv_Cons)

lemma FindStringSubmatch_twin_path_cases:
  "FindStringSubmatch twin_path_regexp p = [] \<or>
   (\<exists>tw r. FindStringSubmatch twin_path_regexp p = [p, tw, r] \<and>
           p = CHR ''/'' # tw @ CHR ''/'' # r \<and> tw \<noteq> [] \<and> r \<noteq> [] \<and>
           CHR ''/'' \<notin> set (tl tw) \<and> newline \<notin> set p)"
proof (cases "run twin_path_regexp 0 p (\<lambda>k. 0)")
  case None
  then show ?thesis
    unfolding FindStringSubmatch_def first_match_at_start by simp
next
  case (Some cap)
  let ?notnl = "\<lambda>x. x \<noteq> newline"
  from Some obtain s1 k where p: "p = CHR ''/'' # s1"
    and fnd: "find (\<lambda>k. rest_ok (drop k s1)) [1..<Suc (length (takeWhile ?notnl s1))] = Some k"
    and cap: "cap = (\<lambda>k. 0)(0 := 0, 2 := 1, 3 := 1 + k, 4 := 2 + k,
                           5 := 1 + length s1, 1 := 1 + length s1)"
    unfolding run_twin_path_regexp_start
    by (auto split: list.splits if_splits option.splits)
  note f = find_upt_SomeD[OF fnd]
  from f(3) obtain s2 where s2: "drop k s1 = CHR ''/'' # s2" "s2 \<noteq> []" "newline \<notin> set s2"
    unfolding rest_ok_iff by blast
  have kn: "k \<le> length (takeWhile ?notnl s1)" using f(2) by simp
  have klen: "k < length s1"
    using s2(1) by (metis drop_all list.distinct(1) not_le_imp_less)
  define tw where "tw = take k s1"
  have s1: "s1 = tw @ CHR ''/'' # s2"
    using s2(1) append_take_drop_id[of k s1] by (simp add: tw_def)
  have tw_ne: "tw \<noteq> []" using f(1) klen by (auto simp: tw_def)
  have tw_nl: "newline \<notin> set tw"
    using take_takeWhile_holds[OF kn, of newline] by (auto simp: tw_def)
  have p_nl: "newline \<notin> set p"
    using tw_nl s2(3) by (simp add: p s1 newline_def)
  have minimal: "CHR ''/'' \<notin> set (tl tw)"
  proof
    assume "CHR ''/'' \<in> set (tl tw)"
    then obtain i where i: "i < length (tl tw)" "tl tw ! i = CHR ''/''"
      by (auto simp: in_set_conv_nth)
    let ?j = "Suc i"
    have jk: "?j < k" using i(1) klen by (simp add: tw_def)
    have twj: "tw ! ?j = CHR ''/''" using i tw_ne by (cases tw) simp_all
    have "s1 ! ?j = CHR ''/''" using twj jk klen by (simp add: tw_def)
    moreover have "?j < length s1" using jk klen by simp
    ultimately have d: "drop ?j s1 = CHR ''/'' # drop (Suc ?j) s1"
      by (metis Cons_nth_drop_Suc)
    have "drop (Suc ?j) s1 \<noteq> []" using jk klen by simp
    moreover have "newline \<notin> set (drop (Suc ?j) s1)"
      using p_nl by (auto simp: p dest: in_set_dropD)
    ultimately have "rest_ok (drop ?j s1)"
      unfolding rest_ok_iff using d by blast
    moreover have "\<not> rest_ok (drop ?j s1)" using f(4)[of ?j] jk by simp
    ultimately show False by contradiction
  qed
  have len: "length s1 = length tw + Suc (length s2)" using s1 by (metis length_append length_Cons)
  have ktw: "k = length tw" using klen by (simp add: tw_def)
  have res: "FindStringSubmatch twin_path_regexp p = [p, tw, s2]"
    unfolding FindStringSubmatch_def first_match_at_start Some option.case
      NumSubexp_twin_path_regexp upt_3
    by (simp add: cap substr_def p ktw) (simp add: s1)
  show ?thesis
    using res p s1 tw_ne s2(2) minimal p_nl by auto
qed

lemma FindStringSubmatch_twin_path_complete:
  assumes "p = CHR ''/'' # tw @ CHR ''/'' # r" and "tw \<noteq> []" and "r \<noteq> []"
    and "newline \<notin> set p"
  shows "FindStringSubmatch twin_path_regexp p \<noteq> []"
proof -
  let ?notnl = "\<lambda>x. x \<noteq> newline"
  let ?s1 = "tw @ CHR ''/'' # r"
  have "\<forall>x \<in> set ?s1. x \<noteq> newline" using assms(1,4) by auto
  then have n: "length (takeWhile ?notnl ?s1) = length ?s1"
    by (simp only: takeWhile_full_iff)
  have "rest_ok (drop (length tw) ?s1)"
    using assms by (auto simp: rest_ok_iff)
  moreover have "length tw \<in> set [1..<Suc (length (takeWhile ?notnl ?s1))]"
    unfolding n set_upt atLeastLessThan_iff using assms(2) by (cases tw) simp_all
  ultimately have "find (\<lambda>k. rest_ok (drop k ?s1)) [1..<Suc (length (takeWhile ?notnl ?s1))] \<noteq> None"
    unfolding find_None_iff by blast
  then have "run twin_path_regexp 0 p (\<lambda>k. 0) \<noteq> None"
    unfolding run_twin_path_regexp_start assms(1) by (auto simp del: upt_Suc)
  then show ?thesis
    unfolding FindStringSubmatch_def first_match_at_start by auto
qed

subsection \<open>The two passes of patchMultipleTwin\<close>

lemma FindStringSubmatch_length:
  "length (FindStringSubmatch twin_path_regexp p) = 3 \<longleftrightarrow>
   FindStringSubmatch twin_path_regexp p \<noteq> []"
  using FindStringSubmatch_twin_path_cases[of p] by auto

lemma first_pass_None_iff:
  "first_pass twin_path_regexp ops = None \<longleftrightarrow>
   (\<exists>v \<in> set ops. FindStringSubmatch twin_path_regexp (Path v) = [])"
proof (induction ops)
  case Nil
  then show ?case by simp
next
  case (Cons v vs)
  have "length (FindStringSubmatch twin_path_regexp (Path v)) < 3 \<or>
        length (FindStringSubmatch twin_path_regexp (Path v)) > 3 \<longleftrightarrow>
        FindStringSubmatch twin_path_regexp (Path v) = []"
    using FindStringSubmatch_length[of "Path v"] by auto
  then show ?case using Cons.IH
    by (cases "first_pass twin_path_regexp vs") (auto simp: Let_def)
qed

lemma first_pass_Some:
  "\<forall>v \<in> set ops. FindStringSubmatch twin_path_regexp (Path v) \<noteq> [] \<Longrightarrow>
   first_pass twin_path_regexp ops =
     Some (map (\<lambda>v. set_twin (FindStringSubmatch twin_path_regexp (Path v)) v) ops)"
proof (induction ops)
  case Nil
  then show ?case by simp
next
  case (Cons v vs)
  from Cons.prems have "length (FindStringSubmatch twin_path_regexp (Path v)) = 3"
    by (simp add: FindStringSubmatch_length)
  then show ?case using Cons by (simp add: Let_def)
qed

lemma second_pass_returns_nil: "fst (second_pass e d vs tr) = (None, None)"
  by (induction vs arbitrary: tr) (simp_all add: Let_def split: sum.splits)

lemma second_pass_trace:
  "snd (second_pass e d vs tr) =
     tr @ map (\<lambda>v. (new_call d (TwinID v) [v], client_Update e (new_call d (TwinID v) [v])))
            (takeWhile (\<lambda>v. \<exists>b. json_Marshal e [v] = Inr b) vs)"
proof (induction vs arbitrary: tr)
  case Nil
  then show ?case by simp
next
  case (Cons v vs)
  show ?case
  proof (cases "json_Marshal e [v]")
    case (Inl err)
    then show ?thesis by simp
  next
    case (Inr b)
    then show ?thesis using Cons.IH by (simp add: Update_def Let_def)
  qed
qed

lemma set_twin_matched:
  assumes "FindStringSubmatch twin_path_regexp (Path v) \<noteq> []"
  shows "\<exists>tw r. Path v = CHR ''/'' # tw @ CHR ''/'' # r \<and> tw \<noteq> [] \<and> r \<noteq> [] \<and>
           CHR ''/'' \<notin> set (tl tw) \<and> newline \<notin> set (Path v) \<and>
           set_twin (FindStringSubmatch twin_path_regexp (Path v)) v =
             v\<lparr>TwinID := tw, Path := CHR ''/'' # r\<rparr>"
proof -
  from FindStringSubmatch_twin_path_cases[of "Path v"] assms
  obtain tw r where m: "FindStringSubmatch twin_path_regexp (Path v) = [Path v, tw, r]"
    and sh: "Path v = CHR ''/'' # tw @ CHR ''/'' # r" "tw \<noteq> []" "r \<noteq> []"
        "CHR ''/'' \<notin> set (tl tw)" "newline \<notin> set (Path v)"
    by blast
  have "set_twin (FindStringSubmatch twin_path_regexp (Path v)) v =
          v\<lparr>TwinID := tw, Path := CHR ''/'' # r\<rparr>"
    unfolding m by (simp add: set_twin_def)
  with sh show ?thesis by blast
qed

lemma sample_matches:
  "FindStringSubmatch twin_path_regexp ''/a/x'' = [''/a/x'', ''a'', ''x'']"
  "FindStringSubmatch twin_path_regexp ''/a/y'' = [''/a/y'', ''a'', ''y'']"
  "FindStringSubmatch twin_path_regexp ''/y'' = []"
  by (simp_all add: FindStringSubmatch_def twin_path_regexp_def NumSubexp_def substr_def
        newline_def)

lemma sample_batches_differ: "sample_bad_batch \<noteq> sample_batch"
  by (simp add: sample_bad_batch_def sample_batch_def)

lemma sample_decoded:
  "json_Unmarshal sample_env sample_batch =
     Inr [\<lparr>Op = ''replace'', Path = ''/a/x'', Value = 1, TwinID = []\<rparr>,
          \<lparr>Op = ''replace'', Path = ''/a/y'', Value = 2, TwinID = []\<rparr>]"
  "json_Unmarshal sample_env sample_bad_batch =
     Inr [\<lparr>Op = ''replace'', Path = ''/a/x'', Value = 1, TwinID = []\<rparr>,
          \<lparr>Op = ''replace'', Path = ''/y'', Value = 2, TwinID = []\<rparr>]"
  "json_Unmarshal sample_env ''{'' = Inl ''invalid character''"
  by (simp_all add: sample_env_def sample_json_Unmarshal_def sample_batches_differ)
     (simp_all add: sample_batch_def sample_bad_batch_def)

lemma sample_update_fails: "client_Update sample_env call = Some ''401 Unauthorized''"
  by (simp add: sample_env_def)

lemma sample_multi_trace:
  "patchMultipleTwin sample_env sample_binding \<lparr>Data = sample_batch, Metadata = md\<rparr> =
     ((None, None),
      [(new_call sample_binding ''a''
          [\<lparr>Op = ''replace'', Path = ''/x'', Value = 1, TwinID = ''a''\<rparr>],
        Some ''401 Unauthorized''),
       (new_call sample_binding ''a''
          [\<lparr>Op = ''replace'', Path = ''/y'', Value = 2, TwinID = ''a''\<rparr>],
        Some ''401 Unauthorized'')])"
  by (simp add: patchMultipleTwin_def sample_decoded sample_matches set_twin_def Let_def)
     (simp add: sample_env_def Update_def Let_def)

lemma sample_rejected_traces:
  "patchMultipleTwin sample_env sample_binding \<lparr>Data = sample_bad_batch, Metadata = md\<rparr> =
     ((None, None), [])"
  "patchMultipleTwin sample_env sample_binding \<lparr>Data = ''{'', Metadata = md\<rparr> =
     ((None, None), [])"
  by (simp_all add: patchMultipleTwin_def sample_decoded sample_matches Let_def)

text \<open>
  Claim C1, as amended. When the batch decodes, every path matches the pattern and
  every rewritten operation re-serialises, \<^verbatim>\<open>patchMultipleTwin\<close> issues exactly one
  \<^verbatim>\<open>Update\<close> call per operation, in input order: the call for an operation with path
  \<^verbatim>\<open>/<twinId>/<rest>\<close> (twin id non-empty, without a slash after its first character)
  goes to that twin id and carries a single-operation document whose path is
  \<^verbatim>\<open>/<rest>\<close>. Operations of the same twin are not merged into one call.
\<close>

theorem patchMultipleTwin_one_update_per_operation:
  assumes "json_Unmarshal e (Data req) = Inr ops"
    and "\<forall>v \<in> set ops. FindStringSubmatch twin_path_regexp (Path v) \<noteq> []"
    and "\<forall>v \<in> set ops.
           \<exists>b. json_Marshal e [set_twin (FindStringSubmatch twin_path_regexp (Path v)) v] = Inr b"
  shows "list_all2
           (\<lambda>v c. \<exists>tw r. Path v = CHR ''/'' # tw @ CHR ''/'' # r \<and> tw \<noteq> [] \<and> r \<noteq> [] \<and>
                     CHR ''/'' \<notin> set (tl tw) \<and>
                     c = new_call d tw [v\<lparr>TwinID := tw, Path := CHR ''/'' # r\<rparr>])
           ops (map fst (snd (patchMultipleTwin e d req)))"
proof -
  let ?st = "\<lambda>v. set_twin (FindStringSubmatch twin_path_regexp (Path v)) v"
  have all: "takeWhile (\<lambda>v. \<exists>b. json_Marshal e [v] = Inr b) (map ?st ops) = map ?st ops"
    using assms(3) by (auto simp: takeWhile_eq_all_conv)
  have calls: "map fst (snd (patchMultipleTwin e d req)) =
                 map (\<lambda>v. new_call d (TwinID (?st v)) [?st v]) ops"
    unfolding patchMultipleTwin_def assms(1) sum.case first_pass_Some[OF assms(2)] option.case
      second_pass_trace all
    by (simp add: comp_def)
  show ?thesis
    unfolding calls list_all2_map2
  proof (rule list_all2_all_nthI)
    show "length ops = length ops" by simp
  next
    fix n assume "n < length ops"
    then have "ops ! n \<in> set ops" by simp
    with assms(2) have "FindStringSubmatch twin_path_regexp (Path (ops ! n)) \<noteq> []" by blast
    from set_twin_matched[OF this]
    obtain tw r where sh: "Path (ops ! n) = CHR ''/'' # tw @ CHR ''/'' # r" "tw \<noteq> []" "r \<noteq> []"
        "CHR ''/'' \<notin> set (tl tw)"
      and st: "?st (ops ! n) = (ops ! n)\<lparr>TwinID := tw, Path := CHR ''/'' # r\<rparr>"
      by blast
    show "\<exists>tw r. Path (ops ! n) = CHR ''/'' # tw @ CHR ''/'' # r \<and> tw \<noteq> [] \<and> r \<noteq> [] \<and>
                 CHR ''/'' \<notin> set (tl tw) \<and>
                 new_call d (TwinID (?st (ops ! n))) [?st (ops ! n)] =
                   new_call d tw [(ops ! n)\<lparr>TwinID := tw, Path := CHR ''/'' # r\<rparr>]"
      using sh unfolding st by (intro exI[of _ tw] exI[of _ r]) simp
  qed
qed

theorem patchMultipleTwin_one_update_per_operation_witness:
  "list_all2
     (\<lambda>v c. \<exists>tw r. Path v = CHR ''/'' # tw @ CHR ''/'' # r \<and> tw \<noteq> [] \<and> r \<noteq> [] \<and>
               CHR ''/'' \<notin> set (tl tw) \<and>
               c = new_call sample_binding tw [v\<lparr>TwinID := tw, Path := CHR ''/'' # r\<rparr>])
     [\<lparr>Op = ''replace'', Path = ''/a/x'', Value = 1, TwinID = []\<rparr>,
      \<lparr>Op = ''replace'', Path = ''/a/y'', Value = 2, TwinID = []\<rparr>]
     (map fst (snd (patchMultipleTwin sample_env sample_binding
                      \<lparr>Data = sample_batch, Metadata = Map.empty\<rparr>)))"
proof -
  let ?ops = "[\<lparr>Op = ''replace'', Path = ''/a/x'', Value = 1::int, TwinID = []\<rparr>,
               \<lparr>Op = ''replace'', Path = ''/a/y'', Value = 2, TwinID = []\<rparr>]"
  let ?req = "\<lparr>Data = sample_batch, Metadata = Map.empty\<rparr>"
  have h1: "json_Unmarshal sample_env (Data ?req) = Inr ?ops"
    by (simp add: sample_decoded)
  have h2: "\<forall>v \<in> set ?ops. FindStringSubmatch twin_path_regexp (Path v) \<noteq> []"
    by (simp add: sample_matches)
  have h3: "\<forall>v \<in> set ?ops.
      \<exists>b. json_Marshal sample_env [set_twin (FindStringSubmatch twin_path_regexp (Path v)) v] = Inr b"
    by (simp add: sample_env_def)
  show ?thesis
    by (rule patchMultipleTwin_one_update_per_operation[OF h1 h2 h3])
qed

text \<open>
  Two operations on the same twin yield two calls with one operation each, whereas
  per-twin grouping would yield a single document holding both.
\<close>

theorem patchMultipleTwin_per_twin_grouping_counterexample:
  "submitted
       (snd (patchMultipleTwin sample_env sample_binding
               \<lparr>Data = sample_batch, Metadata = Map.empty\<rparr>)) =
     [(''a'', [\<lparr>Op = ''replace'', Path = ''/x'', Value = 1, TwinID = ''a''\<rparr>]),
      (''a'', [\<lparr>Op = ''replace'', Path = ''/y'', Value = 2, TwinID = ''a''\<rparr>])] \<and>
   per_twin_documents
     [\<lparr>Op = ''replace'', Path = ''/x'', Value = 1::int, TwinID = ''a''\<rparr>,
      \<lparr>Op = ''replace'', Path = ''/y'', Value = 2, TwinID = ''a''\<rparr>] =
     [(''a'', [\<lparr>Op = ''replace'', Path = ''/x'', Value = 1, TwinID = ''a''\<rparr>,
               \<lparr>Op = ''replace'', Path = ''/y'', Value = 2, TwinID = ''a''\<rparr>])] \<and>
   submitted
       (snd (patchMultipleTwin sample_env sample_binding
               \<lparr>Data = sample_batch, Metadata = Map.empty\<rparr>)) \<noteq>
   per_twin_documents
     [\<lparr>Op = ''replace'', Path = ''/x'', Value = 1, TwinID = ''a''\<rparr>,
      \<lparr>Op = ''replace'', Path = ''/y'', Value = 2, TwinID = ''a''\<rparr>]"
  by (simp add: sample_multi_trace new_call_def per_twin_documents_def submitted_def)

text \<open>
  Claim C2. When the batch decodes and at least one operation's path does not match
  the pattern, \<^verbatim>\<open>patchMultipleTwin\<close> returns after the first pass: no \<^verbatim>\<open>Update\<close> call
  is issued for any operation, also not for those with a valid path.
\<close>

theorem patchMultipleTwin_rejects_whole_batch:
  assumes "json_Unmarshal e (Data req) = Inr ops"
    and "\<exists>v \<in> set ops. FindStringSubmatch twin_path_regexp (Path v) = []"
  shows "patchMultipleTwin e d req = ((None, None), [])"
proof -
  from assms(2) have "first_pass twin_path_regexp ops = None"
    by (simp only: first_pass_None_iff)
  then show ?thesis
    by (simp add: patchMultipleTwin_def assms(1))
qed

theorem patchMultipleTwin_rejects_whole_batch_witness:
  "(\<exists>v \<in> set [\<lparr>Op = ''replace'', Path = ''/a/x'', Value = 1::int, TwinID = []\<rparr>,
               \<lparr>Op = ''replace'', Path = ''/y'', Value = 2, TwinID = []\<rparr>].
      FindStringSubmatch twin_path_regexp (Path v) = []) \<and>
   FindStringSubmatch twin_path_regexp ''/a/x'' \<noteq> [] \<and>
   patchMultipleTwin sample_env sample_binding
     \<lparr>Data = sample_bad_batch, Metadata = Map.empty\<rparr> = ((None, None), [])"
proof -
  let ?ops = "[\<lparr>Op = ''replace'', Path = ''/a/x'', Value = 1::int, TwinID = []\<rparr>,
               \<lparr>Op = ''replace'', Path = ''/y'', Value = 2, TwinID = []\<rparr>]"
  let ?req = "\<lparr>Data = sample_bad_batch, Metadata = Map.empty\<rparr>"
  have h1: "json_Unmarshal sample_env (Data ?req) = Inr ?ops"
    by (simp add: sample_decoded)
  have h2: "\<exists>v \<in> set ?ops. FindStringSubmatch twin_path_regexp (Path v) = []"
    by (simp add: sample_matches)
  show ?thesis
    using h2 patchMultipleTwin_rejects_whole_batch[OF h1 h2, of sample_binding]
    by (simp add: sample_matches)
qed

subsection \<open>Invoke\<close>

text \<open>
  Claim C3, as amended. The metadata key is \<^verbatim>\<open>twinID\<close>. When it is present with a
  non-empty value, \<^verbatim>\<open>Invoke\<close> is \<^verbatim>\<open>patchSingleTwin\<close> for that twin: if the batch
  decodes, exactly one \<^verbatim>\<open>Update\<close> call against that twin carries all decoded
  operations unchanged, and if it does not decode no call is made. When the key is
  absent or empty, \<^verbatim>\<open>Invoke\<close> is \<^verbatim>\<open>patchMultipleTwin\<close>.
\<close>

theorem Invoke_mode_selection:
  "(\<forall>val. Metadata req ''twinID'' = Some val \<and> val \<noteq> [] \<longrightarrow>
      Invoke e d req = patchSingleTwin e d val req \<and>
      (\<forall>ops. json_Unmarshal e (Data req) = Inr ops \<longrightarrow>
         snd (Invoke e d req) = [(new_call d val ops, client_Update e (new_call d val ops))]) \<and>
      (\<forall>err. json_Unmarshal e (Data req) = Inl err \<longrightarrow> snd (Invoke e d req) = [])) \<and>
   (Metadata req ''twinID'' = None \<or> Metadata req ''twinID'' = Some [] \<longrightarrow>
      Invoke e d req = patchMultipleTwin e d req)"
  by (auto simp: Invoke_def lookup_nonempty_def patchSingleTwin_def Update_def Let_def)

theorem Invoke_mode_selection_witness:
  "Metadata \<lparr>Data = sample_batch, Metadata = [''twinID'' \<mapsto> ''t1'']\<rparr> ''twinID'' = Some ''t1'' \<and>
   snd (Invoke sample_env sample_binding
          \<lparr>Data = sample_batch, Metadata = [''twinID'' \<mapsto> ''t1'']\<rparr>) =
     [(new_call sample_binding ''t1''
         [\<lparr>Op = ''replace'', Path = ''/a/x'', Value = 1, TwinID = []\<rparr>,
          \<lparr>Op = ''replace'', Path = ''/a/y'', Value = 2, TwinID = []\<rparr>],
       Some ''401 Unauthorized'')] \<and>
   snd (Invoke sample_env sample_binding \<lparr>Data = ''{'', Metadata = [''twinID'' \<mapsto> ''t1'']\<rparr>) = [] \<and>
   Invoke sample_env sample_binding \<lparr>Data = sample_batch, Metadata = [''twinID'' \<mapsto> []]\<rparr> =
     patchMultipleTwin sample_env sample_binding
       \<lparr>Data = sample_batch, Metadata = [''twinID'' \<mapsto> []]\<rparr> \<and>
   Invoke sample_env sample_binding \<lparr>Data = sample_batch, Metadata = Map.empty\<rparr> =
     patchMultipleTwin sample_env sample_binding \<lparr>Data = sample_batch, Metadata = Map.empty\<rparr>"
  using Invoke_mode_selection[of "\<lparr>Data = sample_batch, Metadata = [''twinID'' \<mapsto> ''t1'']\<rparr>"
          sample_env sample_binding]
        Invoke_mode_selection[of "\<lparr>Data = ''{'', Metadata = [''twinID'' \<mapsto> ''t1'']\<rparr>"
          sample_env sample_binding]
        Invoke_mode_selection[of "\<lparr>Data = sample_batch, Metadata = [''twinID'' \<mapsto> []]\<rparr>"
          sample_env sample_binding]
        Invoke_mode_selection[of "\<lparr>Data = sample_batch, Metadata = Map.empty\<rparr>"
          sample_env sample_binding]
  by (simp (no_asm_use) add: sample_decoded sample_update_fails) blast

text \<open>
  With the key spelled \<^verbatim>\<open>twinId\<close> the request is handled by \<^verbatim>\<open>patchMultipleTwin\<close>:
  the calls go to the twin named in the paths, not to the one in the metadata.
\<close>

theorem Invoke_twinId_key_counterexample:
  "Metadata \<lparr>Data = sample_batch, Metadata = [''twinId'' \<mapsto> ''t1'']\<rparr> ''twinId'' = Some ''t1'' \<and>
   Invoke sample_env sample_binding \<lparr>Data = sample_batch, Metadata = [''twinId'' \<mapsto> ''t1'']\<rparr> =
     patchMultipleTwin sample_env sample_binding
       \<lparr>Data = sample_batch, Metadata = [''twinId'' \<mapsto> ''t1'']\<rparr> \<and>
   map fst
       (submitted (snd (Invoke sample_env sample_binding
               \<lparr>Data = sample_batch, Metadata = [''twinId'' \<mapsto> ''t1'']\<rparr>))) = [''a'', ''a''] \<and>
   Invoke sample_env sample_binding \<lparr>Data = sample_batch, Metadata = [''twinId'' \<mapsto> ''t1'']\<rparr> \<noteq>
     patchSingleTwin sample_env sample_binding ''t1''
       \<lparr>Data = sample_batch, Metadata = [''twinId'' \<mapsto> ''t1'']\<rparr>"
  by (simp add: Invoke_def lookup_nonempty_def sample_multi_trace patchSingleTwin_def
        sample_decoded Update_def new_call_def Let_def submitted_def)

text \<open>
  Claim C4. \<^verbatim>\<open>Invoke\<close> returns a \<^verbatim>\<open>nil\<close> response and a \<^verbatim>\<open>nil\<close> error for every
  request, every decoder and encoder behaviour and every outcome of the \<^verbatim>\<open>Update\<close>
  calls.
\<close>

theorem Invoke_returns_nil_nil: "fst (Invoke e d req) = (None, None)"
  by (simp add: Invoke_def patchSingleTwin_def patchMultipleTwin_def second_pass_returns_nil
        split: option.splits sum.splits)

theorem Invoke_returns_nil_nil_witness:
  "fst (Invoke sample_env sample_binding \<lparr>Data = ''{'', Metadata = Map.empty\<rparr>) = (None, None) \<and>
   snd (Invoke sample_env sample_binding \<lparr>Data = ''{'', Metadata = Map.empty\<rparr>) = [] \<and>
   fst (Invoke sample_env sample_binding \<lparr>Data = sample_bad_batch, Metadata = Map.empty\<rparr>) =
     (None, None) \<and>
   snd (Invoke sample_env sample_binding \<lparr>Data = sample_bad_batch, Metadata = Map.empty\<rparr>) = [] \<and>
   fst (Invoke sample_env sample_binding \<lparr>Data = sample_batch, Metadata = Map.empty\<rparr>) =
     (None, None) \<and>
   map snd (snd (Invoke sample_env sample_binding \<lparr>Data = sample_batch, Metadata = Map.empty\<rparr>)) =
     [Some ''401 Unauthorized'', Some ''401 Unauthorized''] \<and>
   fst (Invoke (sample_env\<lparr>client_Update := \<lambda>call. None\<rparr>) sample_binding
          \<lparr>Data = sample_batch, Metadata = Map.empty\<rparr>) = (None, None)"
  using Invoke_returns_nil_nil[of "sample_env\<lparr>client_Update := \<lambda>call. None\<rparr>" sample_binding
          "\<lparr>Data = sample_batch, Metadata = Map.empty\<rparr>"]
        Invoke_returns_nil_nil[of sample_env sample_binding "\<lparr>Data = ''{'', Metadata = Map.empty\<rparr>"]
        Invoke_returns_nil_nil[of sample_env sample_binding
          "\<lparr>Data = sample_bad_batch, Metadata = Map.empty\<rparr>"]
        Invoke_returns_nil_nil[of sample_env sample_binding
          "\<lparr>Data = sample_batch, Metadata = Map.empty\<rparr>"]
  by (simp add: Invoke_def lookup_nonempty_def sample_multi_trace sample_rejected_traces)

subsection \<open>NewCloudEventsEnvelope\<close>

lemma envelope_map:
  "NewCloudEventsEnvelope uuid_New jsoniter_Unmarshal id' source eventType subject
           topic pubsubName dataContentType data' traceID = MakeMap [
           ''id'' \<mapsto> VString (if id' = [] then uuid_New else id'),
           ''specversion'' \<mapsto> VString ''1.0'',
           ''datacontenttype'' \<mapsto> VString (if jsoniter_Unmarshal data' = None then ''application/json''
               else if dataContentType = [] then ''text/plain'' else dataContentType),
           ''source'' \<mapsto> VString (if source = [] then ''Dapr'' else source),
           ''type'' \<mapsto> VString (if eventType = [] then ''com.dapr.event.sent'' else eventType),
           ''subject'' \<mapsto> VString subject,
           ''topic'' \<mapsto> VString topic,
           ''pubsubname'' \<mapsto> VString pubsubName,
           ''data'' \<mapsto> VString data',
           ''traceid'' \<mapsto> VString traceID]"
  unfolding NewCloudEventsEnvelope_def Let_def DefaultCloudEventSource_def DefaultCloudEventType_def CloudEventsSpecVersion_def DefaultCloudEventDataContentType_def
  by (simp only: if_distrib[of VString] if_distrib[of Some] cong: if_cong)

lemma dom10: "dom [
           ''id'' \<mapsto> a,
           ''specversion'' \<mapsto> b,
           ''datacontenttype'' \<mapsto> c,
           ''source'' \<mapsto> d,
           ''type'' \<mapsto> e,
           ''subject'' \<mapsto> f,
           ''topic'' \<mapsto> g,
           ''pubsubname'' \<mapsto> h,
           ''data'' \<mapsto> i,
           ''traceid'' \<mapsto> j] = {''id'', ''specversion'', ''datacontenttype'', ''source'', ''type'',
                ''subject'', ''topic'', ''pubsubname'', ''data'', ''traceid''}"
  by (simp add: insert_commute)

text \<open>
  Claim C5. When the payload parses as JSON (the decoder returns no error),
  \<^verbatim>\<open>datacontenttype\<close> is \<^verbatim>\<open>application/json\<close> whatever the caller passed; when it
  does not parse, \<^verbatim>\<open>datacontenttype\<close> is the caller's value if that is non-empty and
  \<^verbatim>\<open>text/plain\<close> otherwise.
\<close>

theorem NewCloudEventsEnvelope_json_content_type:
  "(jsoniter_Unmarshal data' = None \<longrightarrow>
      index (NewCloudEventsEnvelope uuid_New jsoniter_Unmarshal id' source eventType subject
               topic pubsubName dataContentType data' traceID) ''datacontenttype'' =
        Some (VString ''application/json'')) \<and>
   (jsoniter_Unmarshal data' \<noteq> None \<longrightarrow>
      index (NewCloudEventsEnvelope uuid_New jsoniter_Unmarshal id' source eventType subject
               topic pubsubName dataContentType data' traceID) ''datacontenttype'' =
        Some (VString (if dataContentType \<noteq> [] then dataContentType else ''text/plain'')))"
  by (simp add: NewCloudEventsEnvelope_def DefaultCloudEventDataContentType_def Let_def)

theorem NewCloudEventsEnvelope_json_content_type_witness:
  \<open>index (NewCloudEventsEnvelope ''3f2c''
            (\<lambda>s. if s = ''{"a":1}'' then None else Some ''invalid character'')
            [] [] [] [] ''orders'' ''bus'' ''text/plain'' ''{"a":1}'' [] :: unit iface gomap)
     ''datacontenttype'' = Some (VString ''application/json'') \<and>
   index (NewCloudEventsEnvelope ''3f2c''
            (\<lambda>s. if s = ''{"a":1}'' then None else Some ''invalid character'')
            [] [] [] [] ''orders'' ''bus'' ''text/csv'' ''a,b'' [] :: unit iface gomap)
     ''datacontenttype'' = Some (VString ''text/csv'') \<and>
   index (NewCloudEventsEnvelope ''3f2c''
            (\<lambda>s. if s = ''{"a":1}'' then None else Some ''invalid character'')
            [] [] [] [] ''orders'' ''bus'' [] ''a,b'' [] :: unit iface gomap)
     ''datacontenttype'' = Some (VString ''text/plain'')\<close>
  using NewCloudEventsEnvelope_json_content_type
          [where ?'a = unit, of \<open>\<lambda>s. if s = ''{"a":1}'' then None else Some ''invalid character''\<close>
              \<open>''{"a":1}''\<close> "''3f2c''" "[]" "[]" "[]" "[]" "''orders''" "''bus''"
              "''text/plain''" "[]"]
        NewCloudEventsEnvelope_json_content_type
          [where ?'a = unit, of \<open>\<lambda>s. if s = ''{"a":1}'' then None else Some ''invalid character''\<close>
              "''a,b''" "''3f2c''" "[]" "[]" "[]" "[]" "''orders''" "''bus''"
              "''text/csv''" "[]"]
        NewCloudEventsEnvelope_json_content_type
          [where ?'a = unit, of \<open>\<lambda>s. if s = ''{"a":1}'' then None else Some ''invalid character''\<close>
              "''a,b''" "''3f2c''" "[]" "[]" "[]" "[]" "''orders''" "''bus''"
              "[]" "[]"]
  by simp

text \<open>
  Claim C10. The envelope is an allocated map with exactly the ten keys \<^verbatim>\<open>id\<close>,
  \<^verbatim>\<open>specversion\<close>, \<^verbatim>\<open>datacontenttype\<close>, \<^verbatim>\<open>source\<close>, \<^verbatim>\<open>type\<close>, \<^verbatim>\<open>subject\<close>,
  \<^verbatim>\<open>topic\<close>, \<^verbatim>\<open>pubsubname\<close>, \<^verbatim>\<open>data\<close> and \<^verbatim>\<open>traceid\<close>; \<^verbatim>\<open>specversion\<close> is
  \<^verbatim>\<open>1.0\<close>, an empty source becomes \<^verbatim>\<open>Dapr\<close>, an empty type becomes
  \<^verbatim>\<open>com.dapr.event.sent\<close>, and \<^verbatim>\<open>data\<close> is the payload as a string, also when the
  payload is valid JSON.
\<close>

theorem NewCloudEventsEnvelope_fields:
  "\<exists>m. NewCloudEventsEnvelope uuid_New jsoniter_Unmarshal id' source eventType subject
           topic pubsubName dataContentType data' traceID = MakeMap m \<and>
       dom m = {''id'', ''specversion'', ''datacontenttype'', ''source'', ''type'',
                ''subject'', ''topic'', ''pubsubname'', ''data'', ''traceid''} \<and>
       m ''id'' = Some (VString (if id' = [] then uuid_New else id')) \<and>
       m ''specversion'' = Some (VString ''1.0'') \<and>
       m ''source'' = Some (VString (if source = [] then ''Dapr'' else source)) \<and>
       m ''type'' = Some (VString (if eventType = [] then ''com.dapr.event.sent'' else eventType)) \<and>
       m ''subject'' = Some (VString subject) \<and>
       m ''topic'' = Some (VString topic) \<and>
       m ''pubsubname'' = Some (VString pubsubName) \<and>
       m ''data'' = Some (VString data') \<and>
       m ''traceid'' = Some (VString traceID)"
  apply (rule exI)
  apply (rule conjI)
   apply (rule envelope_map)
  apply (rule conjI)
   apply (rule dom10)
  apply (intro conjI)
  apply simp_all
  done

theorem NewCloudEventsEnvelope_fields_witness:
  \<open>\<exists>m. NewCloudEventsEnvelope ''3f2c'' (\<lambda>s. if s = ''{"a":1}'' then None else Some ''invalid'')
           [] [] [] ''sub'' ''orders'' ''bus'' [] ''{"a":1}'' ''00-trace'' = MakeMap (m :: string \<rightharpoonup> unit iface) \<and>
       dom m = {''id'', ''specversion'', ''datacontenttype'', ''source'', ''type'',
                ''subject'', ''topic'', ''pubsubname'', ''data'', ''traceid''} \<and>
       m ''id'' = Some (VString ''3f2c'') \<and>
       m ''specversion'' = Some (VString ''1.0'') \<and>
       m ''source'' = Some (VString ''Dapr'') \<and>
       m ''type'' = Some (VString ''com.dapr.event.sent'') \<and>
       m ''subject'' = Some (VString ''sub'') \<and>
       m ''topic'' = Some (VString ''orders'') \<and>
       m ''pubsubname'' = Some (VString ''bus'') \<and>
       m ''data'' = Some (VString ''{"a":1}'') \<and>
       m ''traceid'' = Some (VString ''00-trace'')\<close>
  using NewCloudEventsEnvelope_fields [of "''3f2c''" \<open>\<lambda>s. if s = ''{"a":1}'' then None else Some ''invalid''\<close>
      "[]" "[]" "[]" "''sub''" "''orders''" "''bus''" "[]"  \<open>''{"a":1}''\<close> "''00-trace''"]
  by simp

subsection \<open>HasExpired\<close>

text \<open>
  Claim C6. \<^verbatim>\<open>HasExpired\<close> is true exactly when the envelope has an \<^verbatim>\<open>expiration\<close>
  entry different from the empty string whose \<^verbatim>\<open>%s\<close> rendering parses as an RFC3339
  timestamp lying strictly before the current time; it is false when the entry is
  missing, is the empty string, or does not parse.
\<close>

theorem HasExpired_iff:
  "(HasExpired fmt_other time_Parse time_Now cloudEvent \<longleftrightarrow>
      (\<exists>e t. index cloudEvent ''expiration'' = Some e \<and> e \<noteq> VString [] \<and>
             time_Parse (Sprintf_s fmt_other e) = Inr t \<and> instant t < instant time_Now)) \<and>
   (index cloudEvent ''expiration'' = None \<longrightarrow>
      \<not> HasExpired fmt_other time_Parse time_Now cloudEvent) \<and>
   (index cloudEvent ''expiration'' = Some (VString []) \<longrightarrow>
      \<not> HasExpired fmt_other time_Parse time_Now cloudEvent) \<and>
   (\<forall>e err. index cloudEvent ''expiration'' = Some e \<and>
        time_Parse (Sprintf_s fmt_other e) = Inl err \<longrightarrow>
      \<not> HasExpired fmt_other time_Parse time_Now cloudEvent)"
  by (auto simp: HasExpired_def expirationField_def Before_def UTC_def
           split: option.splits sum.splits)

theorem HasExpired_iff_witness:
  "HasExpired (\<lambda>u::unit. ''%!s(<nil>)'') sample_time_Parse sample_time_Now
     (MakeMap [''expiration'' \<mapsto> VString ''2000-01-01T00:00:00Z'']) \<and>
   \<not> HasExpired (\<lambda>u::unit. ''%!s(<nil>)'') sample_time_Parse sample_time_Now (MakeMap Map.empty) \<and>
   \<not> HasExpired (\<lambda>u::unit. ''%!s(<nil>)'') sample_time_Parse sample_time_Now NilMap \<and>
   \<not> HasExpired (\<lambda>u::unit. ''%!s(<nil>)'') sample_time_Parse sample_time_Now
     (MakeMap [''expiration'' \<mapsto> VString []]) \<and>
   \<not> HasExpired (\<lambda>u::unit. ''%!s(<nil>)'') sample_time_Parse sample_time_Now
     (MakeMap [''expiration'' \<mapsto> VString ''not-a-date''])"
  using HasExpired_iff [of "\<lambda>u::unit. ''%!s(<nil>)''" sample_time_Parse sample_time_Now
          "MakeMap [''expiration'' \<mapsto> VString ''2000-01-01T00:00:00Z'']"]
        HasExpired_iff [of "\<lambda>u::unit. ''%!s(<nil>)''" sample_time_Parse sample_time_Now
          "MakeMap Map.empty"]
        HasExpired_iff [of "\<lambda>u::unit. ''%!s(<nil>)''" sample_time_Parse sample_time_Now NilMap]
        HasExpired_iff [of "\<lambda>u::unit. ''%!s(<nil>)''" sample_time_Parse sample_time_Now
          "MakeMap [''expiration'' \<mapsto> VString []]"]
        HasExpired_iff [of "\<lambda>u::unit. ''%!s(<nil>)''" sample_time_Parse sample_time_Now
          "MakeMap [''expiration'' \<mapsto> VString ''not-a-date'']"]
  by (simp add: sample_time_Parse_def sample_time_Now_def)

subsection \<open>ApplyMetadata\<close>

text \<open>
  Claim C7. For an envelope (an allocated map), \<^verbatim>\<open>ApplyMetadata\<close> stores under
  \<^verbatim>\<open>expiration\<close> the RFC3339 rendering of the current UTC time plus the TTL exactly
  when the metadata carries a TTL and the feature list lacks the message-TTL feature;
  otherwise the envelope is returned as it was.
\<close>

theorem ApplyMetadata_expiration:
  "ApplyMetadata FeatureMessageTTL TryGetTTL time_Now Format (MakeMap m) componentFeatures metadata =
     Inr (MakeMap
       (if fst (snd (TryGetTTL metadata)) \<and> FeatureMessageTTL \<notin> set componentFeatures
        then m(''expiration'' \<mapsto>
               VString (Format (Add (UTC time_Now) (fst (TryGetTTL metadata)))))
        else m)) \<and>
   instant (Add (UTC time_Now) (fst (TryGetTTL metadata))) =
     instant time_Now + fst (TryGetTTL metadata) \<and>
   zone_offset (Add (UTC time_Now) (fst (TryGetTTL metadata))) = 0"
  by (simp add: ApplyMetadata_def IsPresent_def expirationField_def UTC_def Add_def
        split: prod.splits)

theorem ApplyMetadata_expiration_witness:
  "ApplyMetadata ''MESSAGE_TTL''
     (\<lambda>md. if md ''ttlInSeconds'' = Some ''10'' then (10000000000, True, None)
            else (0, False, None))
     sample_time_Now
     (\<lambda>t. if instant t = 1609459210000000000 \<and> zone_offset t = 0
           then ''2021-01-01T00:00:10Z'' else ''other'')
     (MakeMap [''id'' \<mapsto> VString ''7'']) [] [''ttlInSeconds'' \<mapsto> ''10''] =
     Inr (MakeMap [''id'' \<mapsto> VString ''7'',
                   ''expiration'' \<mapsto> (VString ''2021-01-01T00:00:10Z'' :: unit iface)]) \<and>
   ApplyMetadata ''MESSAGE_TTL''
     (\<lambda>md. if md ''ttlInSeconds'' = Some ''10'' then (10000000000, True, None)
            else (0, False, None))
     sample_time_Now
     (\<lambda>t. if instant t = 1609459210000000000 \<and> zone_offset t = 0
           then ''2021-01-01T00:00:10Z'' else ''other'')
     (MakeMap [''id'' \<mapsto> VString ''7'']) [''MESSAGE_TTL''] [''ttlInSeconds'' \<mapsto> ''10''] =
     Inr (MakeMap [''id'' \<mapsto> (VString ''7'' :: unit iface)])"
  using ApplyMetadata_expiration
          [where ?'a = unit, of "''MESSAGE_TTL''"
              "\<lambda>md. if md ''ttlInSeconds'' = Some ''10'' then (10000000000, True, None)
                    else (0, False, None)"
              sample_time_Now
              "\<lambda>t. if instant t = 1609459210000000000 \<and> zone_offset t = 0
                   then ''2021-01-01T00:00:10Z'' else ''other''"
              "[''id'' \<mapsto> VString ''7'']" "[]" "[''ttlInSeconds'' \<mapsto> ''10'']"]
        ApplyMetadata_expiration
          [where ?'a = unit, of "''MESSAGE_TTL''"
              "\<lambda>md. if md ''ttlInSeconds'' = Some ''10'' then (10000000000, True, None)
                    else (0, False, None)"
              sample_time_Now
              "\<lambda>t. if instant t = 1609459210000000000 \<and> zone_offset t = 0
                   then ''2021-01-01T00:00:10Z'' else ''other''"
              "[''id'' \<mapsto> VString ''7'']" "[''MESSAGE_TTL'']" "[''ttlInSeconds'' \<mapsto> ''10'']"]
  by (simp add: sample_time_Now_def UTC_def Add_def)

lemma ApplyMetadata_nil_map:
  "ApplyMetadata FeatureMessageTTL TryGetTTL time_Now Format NilMap componentFeatures metadata =
     (if fst (snd (TryGetTTL metadata)) \<and> FeatureMessageTTL \<notin> set componentFeatures
      then Inl ''assignment to entry in nil map'' else Inr NilMap)"
  by (simp add: ApplyMetadata_def IsPresent_def split: prod.splits)

subsection \<open>FromCloudEvent\<close>

lemma FromCloudEvent_decoded:
  "jsoniter_Unmarshal cloudEvent = (MakeMap m, None) \<Longrightarrow>
   FromCloudEvent jsoniter_Unmarshal cloudEvent traceID =
     Inr (MakeMap (m(''traceid'' \<mapsto> VString traceID)), None)"
  by (simp add: FromCloudEvent_def setTraceContext_def TraceIDField_def)

lemma FromCloudEvent_error:
  "jsoniter_Unmarshal cloudEvent = (m, Some err) \<Longrightarrow>
   FromCloudEvent jsoniter_Unmarshal cloudEvent traceID = Inr (m, Some err)"
  by (simp add: FromCloudEvent_def)

lemma FromCloudEvent_nil:
  "jsoniter_Unmarshal cloudEvent = (NilMap, None) \<Longrightarrow>
   FromCloudEvent jsoniter_Unmarshal cloudEvent traceID = Inl ''assignment to entry in nil map''"
  by (simp add: FromCloudEvent_def setTraceContext_def)

text \<open>
  Claim C8. \<^verbatim>\<open>FromCloudEvent\<close> at the input \<^verbatim>\<open>null\<close>: the decoder reports no error
  and leaves the map \<^verbatim>\<open>nil\<close>, so \<^verbatim>\<open>setTraceContext\<close> assigns into a \<^verbatim>\<open>nil\<close> map and
  the call panics instead of returning an error. On a JSON object the trace id is
  stored and the other entries are kept; on a decoding error the error is returned.
\<close>

theorem FromCloudEvent_null_panics:
  \<open>sample_jsoniter_Unmarshal ''null'' = (NilMap, None) \<and>
   FromCloudEvent sample_jsoniter_Unmarshal ''null'' ''00-trace'' =
     Inl ''assignment to entry in nil map'' \<and>
   FromCloudEvent sample_jsoniter_Unmarshal ''{"id":"7"}'' ''00-trace'' =
     Inr (MakeMap [''id'' \<mapsto> VString ''7'', ''traceid'' \<mapsto> VString ''00-trace''], None)\<close>
  by (simp add: FromCloudEvent_def setTraceContext_def TraceIDField_def
        sample_jsoniter_Unmarshal_def)

subsection \<open>Initialisation\<close>

lemma lookup_nonempty_None_iff:
  "lookup_nonempty m k = None \<longleftrightarrow> (m k = None \<or> m k = Some [])"
  by (simp add: lookup_nonempty_def split: option.splits)

lemma lookup_nonempty_Some_iff:
  "lookup_nonempty m k = Some v \<longleftrightarrow> (m k = Some v \<and> v \<noteq> [])"
  by (auto simp: lookup_nonempty_def split: option.splits)

text \<open>
  Claim C9. \<^verbatim>\<open>Init\<close> returns no error exactly when \<^verbatim>\<open>clientId\<close>, \<^verbatim>\<open>clientSecret\<close>,
  \<^verbatim>\<open>tenantId\<close> and \<^verbatim>\<open>adtInstanceUrl\<close> are all present with non-empty values, and then it
  stores the four values. Otherwise the error message is
  \<^verbatim>\<open>azureDigitalTwins error: missing <key>\<close> for the first key, in that order, that is
  absent or empty, and the binding is returned as it was.
\<close>

theorem Init_requires_all_fields:
  "(snd (Init d md) = None \<longleftrightarrow>
      (\<forall>k \<in> set required_keys. \<exists>v. Properties md k = Some v \<and> v \<noteq> [])) \<and>
   Init d md =
     (case find (\<lambda>k. Properties md k = None \<or> Properties md k = Some []) required_keys of
        Some k \<Rightarrow> (d, Some (''azureDigitalTwins error: missing '' @ k))
      | None \<Rightarrow>
          (d\<lparr>clientID := the (Properties md ''clientId''),
             clientSecret := the (Properties md ''clientSecret''),
             tenantID := the (Properties md ''tenantId''),
             adtInstanceURL := the (Properties md ''adtInstanceUrl'')\<rparr>, None))"
proof (intro conjI)
  show "snd (Init d md) = None \<longleftrightarrow>
      (\<forall>k \<in> set required_keys. \<exists>v. Properties md k = Some v \<and> v \<noteq> [])"
    by (auto simp: Init_def getAzureDigitalTwinsMetadata_def required_keys_def
          lookup_nonempty_Some_iff lookup_nonempty_None_iff split: option.splits)
next
  show "Init d md =
     (case find (\<lambda>k. Properties md k = None \<or> Properties md k = Some []) required_keys of
        Some k \<Rightarrow> (d, Some (''azureDigitalTwins error: missing '' @ k))
      | None \<Rightarrow>
          (d\<lparr>clientID := the (Properties md ''clientId''),
             clientSecret := the (Properties md ''clientSecret''),
             tenantID := the (Properties md ''tenantId''),
             adtInstanceURL := the (Properties md ''adtInstanceUrl'')\<rparr>, None))"
    by (auto simp: Init_def getAzureDigitalTwinsMetadata_def required_keys_def
          lookup_nonempty_def split: option.splits)
qed

theorem Init_requires_all_fields_witness:
  "snd (Init \<lparr>clientID = [], clientSecret = [], tenantID = [], adtInstanceURL = []\<rparr>
          \<lparr>Properties = [''clientId'' \<mapsto> ''app'', ''clientSecret'' \<mapsto> ''pw'',
             ''tenantId'' \<mapsto> ''org'', ''adtInstanceUrl'' \<mapsto> ''https://adt''] \<rparr>) = None \<and>
   Init \<lparr>clientID = [], clientSecret = [], tenantID = [], adtInstanceURL = []\<rparr>
        \<lparr>Properties = [''clientId'' \<mapsto> ''app'', ''clientSecret'' \<mapsto> ''pw'',
             ''tenantId'' \<mapsto> ''org'', ''adtInstanceUrl'' \<mapsto> ''https://adt''] \<rparr> =
     (\<lparr>clientID = ''app'', clientSecret = ''pw'', tenantID = ''org'',
       adtInstanceURL = ''https://adt''\<rparr>, None) \<and>
   Init \<lparr>clientID = ''old'', clientSecret = [], tenantID = [], adtInstanceURL = []\<rparr>
        \<lparr>Properties = [''clientId'' \<mapsto> ''app'', ''clientSecret'' \<mapsto> [],
             ''adtInstanceUrl'' \<mapsto> ''https://adt''] \<rparr> =
     (\<lparr>clientID = ''old'', clientSecret = [], tenantID = [], adtInstanceURL = []\<rparr>,
      Some ''azureDigitalTwins error: missing clientSecret'')"
  using Init_requires_all_fields
          [of "\<lparr>clientID = [], clientSecret = [], tenantID = [], adtInstanceURL = []\<rparr>"
              "\<lparr>Properties = [''clientId'' \<mapsto> ''app'', ''clientSecret'' \<mapsto> ''pw'',
                 ''tenantId'' \<mapsto> ''org'', ''adtInstanceUrl'' \<mapsto> ''https://adt''] \<rparr>"]
        Init_requires_all_fields
          [of "\<lparr>clientID = ''old'', clientSecret = [], tenantID = [], adtInstanceURL = []\<rparr>"
              "\<lparr>Properties = [''clientId'' \<mapsto> ''app'', ''clientSecret'' \<mapsto> [],
                 ''adtInstanceUrl'' \<mapsto> ''https://adt''] \<rparr>"]
  by (simp add: required_keys_def)

end
